theory Spec2Isabelle
  imports Main "HOL-Library.Word"
begin

section \<open>Data model\<close>

text \<open>
  The errors the library raises. The source throws plain \<open>Error\<close> objects; the
  constructors carry the names the specification gives to them. \<open>FetchFailed\<close> is the
  rejection of the platform's \<open>fetch\<close> itself (no response at all), \<open>TypeError\<close> a
  run-time type error of the language, \<open>NumericFault\<close> the overflow of a number
  conversion.
\<close>

datatype error =
    ValueTooLong | EventNotFound | AmbiguousEvent | LengthMismatch | InvalidAddress
  | WrongNetwork | SubmissionRejected | Reverted | Timeout
  | PublishFailed | ResolveFailed | InvalidUri | FetchFailed | TypeError | NumericFault

type_synonym byte = "8 word"
type_synonym address = string
type_synonym hash = string

text \<open>
  JavaScript values as far as the operations produce them. A string is held as its UTF-8
  bytes, so \<open>length\<close> counts the bytes that \<open>toHex\<close> writes. \<open>Hex\<close> is a hex string
  (\<open>0x...\<close>) held as the bytes it denotes.
\<close>

datatype jsval =
    Undefined
  | Null
  | JBool bool
  | BigInt int
  | JStr string
  | Hex "byte list"
  | JArr "jsval list"
  | JObj "(string \<times> jsval) list"

text \<open>A property read: \<open>undefined\<close> when the object does not have the property.\<close>

definition field :: "jsval \<Rightarrow> string \<Rightarrow> jsval" where
  "field v k =
     (case v of
        JObj fs \<Rightarrow> (case map_of fs k of None \<Rightarrow> Undefined | Some x \<Rightarrow> x)
      | _ \<Rightarrow> Undefined)"

text \<open>Truthiness of a value, as \<open>!x\<close> and \<open>x ? a : b\<close> read it.\<close>

definition truthy :: "jsval \<Rightarrow> bool" where
  "truthy v =
     (case v of
        Undefined \<Rightarrow> False
      | Null \<Rightarrow> False
      | JBool b \<Rightarrow> b
      | BigInt n \<Rightarrow> n \<noteq> 0
      | JStr s \<Rightarrow> s \<noteq> []
      | _ \<Rightarrow> True)"

text \<open>
  An assignment \<open>o.k = v\<close>: an existing property keeps its place, a new one goes last.
\<close>

fun setField :: "(string \<times> jsval) list \<Rightarrow> string \<Rightarrow> jsval \<Rightarrow> (string \<times> jsval) list" where
  "setField [] k v = [(k, v)]"
| "setField ((k', v') # fs) k v =
     (if k' = k then (k, v) # fs else (k', v') # setField fs k v)"

text \<open>
  One decoded event of a receipt: its name and its named arguments. Reading an argument
  that the event does not carry gives \<open>undefined\<close>, as a property read does.
\<close>

record event =
  eventName :: string
  args :: "(string \<times> jsval) list"

definition arg :: "event \<Rightarrow> string \<Rightarrow> jsval" where
  "arg e k = (case map_of (args e) k of None \<Rightarrow> Undefined | Some v \<Rightarrow> v)"

record receipt =
  transactionHash :: hash
  logs :: "event list"

text \<open>
  The result envelope \<open>Result<T, HasTxHash>\<close> of \<open>types/contract\<close>: \<open>data\<close>, and a
  \<open>transactionHash\<close> field exactly when \<open>HasTxHash\<close> is true. \<open>None\<close> is the absent field.
\<close>

record result =
  data :: jsval
  transactionHash :: "hash option"

section \<open>Event log matcher\<close>

datatype matched = Single event | Multiple "event list"

text \<open>
  Modelled from the spec: \<open>parseLog\<close> of \<open>src/utils\<close>, which the link and note
  operations import, is not among the sources. Section 4.2 of the specification: filter
  the events by exact name; no match fails with \<open>EventNotFound\<close>; more than one match
  fails with \<open>AmbiguousEvent\<close> unless multiple matches are allowed; the result is the
  single match, or the full filtered sequence when multiple matches are allowed.
\<close>

definition matchEvents :: "event list \<Rightarrow> string \<Rightarrow> bool \<Rightarrow> error + matched" where
  "matchEvents events name allowMultiple =
     (case filter (\<lambda>e. eventName e = name) events of
        [] \<Rightarrow> Inl EventNotFound
      | e # rest \<Rightarrow>
          if rest \<noteq> [] \<and> \<not> allowMultiple then Inl AmbiguousEvent
          else if allowMultiple then Inr (Multiple (e # rest))
          else Inr (Single e))"

text \<open>
  Modelled from the spec: what a call site of \<open>parseLog\<close> holds is one log (it reads
  \<open>log.args\<close>). With \<open>throwOnMultipleLogsFound: false\<close> the selection rule is the first
  match (sections 4.5 and 9 of the specification). An empty selection cannot come out
  of \<open>matchEvents\<close>; it is mapped to \<open>EventNotFound\<close> to keep the function total.
\<close>

definition parseLog :: "event list \<Rightarrow> string \<Rightarrow> bool \<Rightarrow> error + event" where
  "parseLog ls name throwOnMultipleLogsFound =
     (case matchEvents ls name (\<not> throwOnMultipleLogsFound) of
        Inl err \<Rightarrow> Inl err
      | Inr (Single e) \<Rightarrow> Inr e
      | Inr (Multiple []) \<Rightarrow> Inl EventNotFound
      | Inr (Multiple (e # rest)) \<Rightarrow> Inr e)"

section \<open>Link type codec\<close>

text \<open>
  Modelled from the spec: \<open>toHex\<close> is a function of the viem library, not among the
  sources. Section 4.1 of the specification: the link type is encoded from the UTF-8
  bytes of the string. A string being held as its UTF-8 bytes, \<open>toHex\<close> writes those
  bytes.
\<close>

definition toHex :: "string \<Rightarrow> byte list" where
  "toHex s = map (\<lambda>c. of_nat (of_char c)) s"

text \<open>
  Modelled from the spec: \<open>pad\<close> is a function of the viem library, not among the
  sources. Section 4.1 of the specification: encoding fails with \<open>ValueTooLong\<close> if the
  byte length exceeds the fixed width of 32 bytes; otherwise it right-pads with zero
  bytes (\<open>dir: 'right'\<close>).
\<close>

definition pad :: "byte list \<Rightarrow> error + byte list" where
  "pad bs =
     (if 32 < length bs then Inl ValueTooLong
      else Inr (bs @ replicate (32 - length bs) 0))"

text \<open>The encoding as every call site writes it: \<open>pad(toHex(linkType), { dir: 'right' })\<close>.\<close>

definition encodeLinkType :: "string \<Rightarrow> error + byte list" where
  "encodeLinkType s = pad (toHex s)"

text \<open>
  Modelled from the spec: \<open>parseBytes32String\<close> is a function of the ethers library, not
  among the sources. Section 4.1 of the specification: decoding strips trailing zero
  bytes and decodes UTF-8 (here: reads the bytes left as a string).
\<close>

definition stripTrailingZeros :: "byte list \<Rightarrow> byte list" where
  "stripTrailingZeros bs = rev (dropWhile (\<lambda>b. b = 0) (rev bs))"

definition fromUtf8 :: "byte list \<Rightarrow> string" where
  "fromUtf8 bs = map (\<lambda>b. char_of (unat b)) bs"

definition decodeLinkType :: "byte list \<Rightarrow> string" where
  "decodeLinkType bs = fromUtf8 (stripTrailingZeros bs)"

section \<open>The outside world\<close>

text \<open>
  The chain client and the content store are collaborators the library calls. Each is
  a record of answer functions (the chain record also holds the constant \<open>NIL_ADDRESS\<close>
  that the contract classes import from \<open>src/utils\<close>, which is not among the sources);
  what the library asked of them is kept in the \<open>world\<close>:
  the contract calls submitted, the HTTP requests made and the lines logged as errors.
  An answer of the content store may depend on how many requests came before it, so a
  request repeated later can be answered differently.

  In the chain record, \<open>isAddress\<close> is the chain library's test of an address,
  \<open>writeContract\<close> answers a submitted call with the transaction hash, and
  \<open>characterGet\<close> is \<open>character.get\<close> of the character contract. In the store record,
  \<open>postJson\<close> is a POST whose answer is read as JSON, \<open>fetchText\<close> and
  \<open>ipfsFetchText\<close> are \<open>fetch\<close> and \<open>ipfsFetch\<close> whose answer is read as text,
  \<open>jsonParse\<close> is \<open>JSON.parse\<close> (\<open>None\<close> when it throws), \<open>isIpfsUrl\<close> is the test
  of the ipfs-fetch library and \<open>isIpfs_url\<close> is \<open>isIpfs.url\<close> of the is-ipfs library.
\<close>

datatype contractName = Entry | Periphery

record call =
  contract :: contractName
  functionName :: string
  callArgs :: "jsval list"

datatype request = Post string jsval | Get string | IpfsGet string

record world =
  submitted :: "call list"
  requests :: "request list"
  errorLog :: "string list"

record chain =
  NIL_ADDRESS :: string
  currentNetworkId :: nat
  deploymentNetworkId :: nat
  switchNetwork :: "nat \<Rightarrow> bool"
  isAddress :: "address \<Rightarrow> bool"
  writeContract :: "call \<Rightarrow> error + hash"
  waitForTransactionReceipt :: "hash \<Rightarrow> error + receipt"
  getTransactionReceipt :: "hash \<Rightarrow> error + receipt"
  readContract :: "call \<Rightarrow> error + jsval"
  characterGet :: "jsval \<Rightarrow> error + jsval"

record store =
  postJson :: "nat \<Rightarrow> string \<Rightarrow> jsval \<Rightarrow> error + jsval"
  fetchText :: "nat \<Rightarrow> string \<Rightarrow> error + string"
  ipfsFetchText :: "nat \<Rightarrow> string \<Rightarrow> error + string"
  jsonParse :: "string \<Rightarrow> jsval option"
  isIpfsUrl :: "string \<Rightarrow> bool"
  isIpfs_url :: "string \<Rightarrow> bool"

text \<open>
  An asynchronous function is a function of the world that returns its value, or the
  error it throws, and the world after it.
\<close>

type_synonym 'a io = "world \<Rightarrow> (error + 'a) \<times> world"

definition ret :: "'a \<Rightarrow> 'a io" where
  "ret x = (\<lambda>w. (Inr x, w))"

definition throw :: "error \<Rightarrow> 'a io" where
  "throw e = (\<lambda>w. (Inl e, w))"

definition lift :: "error + 'a \<Rightarrow> 'a io" where
  "lift r = (case r of Inl e \<Rightarrow> throw e | Inr x \<Rightarrow> ret x)"

definition andThen :: "'a io \<Rightarrow> ('a \<Rightarrow> 'b io) \<Rightarrow> 'b io" where
  "andThen m f =
     (\<lambda>w. case m w of (Inl e, w') \<Rightarrow> (Inl e, w') | (Inr x, w') \<Rightarrow> f x w')"

text \<open>\<open>xs.forEach(f)\<close> and a sequential \<open>map\<close>: the first error ends the loop.\<close>

fun forEach :: "('a \<Rightarrow> unit io) \<Rightarrow> 'a list \<Rightarrow> unit io" where
  "forEach f [] = ret ()"
| "forEach f (x # xs) = andThen (f x) (\<lambda>_. forEach f xs)"

fun mapIO :: "('a \<Rightarrow> 'b io) \<Rightarrow> 'a list \<Rightarrow> 'b list io" where
  "mapIO f [] = ret []"
| "mapIO f (x # xs) = andThen (f x) (\<lambda>y. andThen (mapIO f xs) (\<lambda>ys. ret (y # ys)))"

text \<open>The steps that touch the world.\<close>

definition contractWrite :: "chain \<Rightarrow> call \<Rightarrow> hash io" where
  "contractWrite c cl = (\<lambda>w. (writeContract c cl, w\<lparr>submitted := submitted w @ [cl]\<rparr>))"

definition httpPost :: "store \<Rightarrow> string \<Rightarrow> jsval \<Rightarrow> jsval io" where
  "httpPost st url body =
     (\<lambda>w. (postJson st (length (requests w)) url body,
            w\<lparr>requests := requests w @ [Post url body]\<rparr>))"

definition httpGet :: "store \<Rightarrow> string \<Rightarrow> string io" where
  "httpGet st url =
     (\<lambda>w. (fetchText st (length (requests w)) url,
            w\<lparr>requests := requests w @ [Get url]\<rparr>))"

definition ipfsFetch :: "store \<Rightarrow> string \<Rightarrow> string io" where
  "ipfsFetch st url =
     (\<lambda>w. (ipfsFetchText st (length (requests w)) url,
            w\<lparr>requests := requests w @ [IpfsGet url]\<rparr>))"

definition logError :: "string \<Rightarrow> unit io" where
  "logError msg = (\<lambda>w. (Inr (), w\<lparr>errorLog := errorLog w @ [msg]\<rparr>))"

section \<open>Content store (\<open>src/ipfs/index.ts\<close>)\<close>

text \<open>
  Modelled from the spec: \<open>retry\<close> is the function of the async-retry library, not
  among the sources. With \<open>{ retries: n }\<close> the function is run, and run again after a
  failure, up to \<open>n\<close> more times; when the last run fails too, its error is thrown.
\<close>

fun retry :: "'a io \<Rightarrow> nat \<Rightarrow> 'a io" where
  "retry f 0 = f"
| "retry f (Suc n) =
     (\<lambda>w. case f w of (Inr x, w') \<Rightarrow> (Inr x, w') | (Inl e, w') \<Rightarrow> retry f n w')"

text \<open>\<open>try { m } catch (e) { throw new Error(...) }\<close>: every error becomes the given one.\<close>

definition catchAll :: "'a io \<Rightarrow> error \<Rightarrow> 'a io" where
  "catchAll m err =
     (\<lambda>w. case m w of (Inl e, w') \<Rightarrow> (Inl err, w') | (Inr x, w') \<Rightarrow> (Inr x, w'))"

definition uploadJson :: "store \<Rightarrow> jsval \<Rightarrow> jsval io" where
  "uploadJson st json = retry (httpPost st ''https://ipfs-relay.crossbell.io/json'' json) 3"

definition metadataToUri :: "store \<Rightarrow> jsval \<Rightarrow> string io" where
  "metadataToUri st metadata =
     andThen (uploadJson st metadata) (\<lambda>res.
       case field res ''url'' of
         JStr url \<Rightarrow> if take 7 url = ''ipfs://'' then ret url else throw PublishFailed
       | Undefined \<Rightarrow> throw PublishFailed
       | Null \<Rightarrow> throw PublishFailed
       | _ \<Rightarrow> throw TypeError)"

text \<open>
  \<open>uriToMetadata\<close> returns the parsed JSON, or nothing at all (\<open>None\<close>, the bare
  \<open>return\<close> of the source).
\<close>

definition uriToMetadata :: "store \<Rightarrow> string \<Rightarrow> jsval option io" where
  "uriToMetadata st uri =
     (if isIpfsUrl st uri then
        (if \<not> isIpfs_url st uri then
           andThen (logError (''Wrong IPFS url: '' @ uri)) (\<lambda>_. ret None)
         else
           andThen (ipfsFetch st uri) (\<lambda>res.
             case jsonParse st res of
               Some json \<Rightarrow> ret (Some json)
             | None \<Rightarrow> throw ResolveFailed))
      else
        catchAll
          (andThen (httpGet st uri) (\<lambda>res.
             case jsonParse st res of
               Some json \<Rightarrow> ret (Some json)
             | None \<Rightarrow> throw ResolveFailed))
          ResolveFailed)"

datatype metadataOrUri = Uri string | Metadata "(string \<times> jsval) list"

record parsedMetadata =
  metadata :: "jsval option"
  uri :: string

definition parseMetadataOrUri ::
  "store \<Rightarrow> string \<Rightarrow> metadataOrUri \<Rightarrow> bool \<Rightarrow> parsedMetadata io" where
  "parseMetadataOrUri st type metadataOrUri retrieveMetadataIfNeeded =
     (if metadataOrUri = Uri [] then ret \<lparr>metadata = None, uri = []\<rparr>
      else
        (case metadataOrUri of
           Uri u \<Rightarrow>
             andThen
               (if retrieveMetadataIfNeeded then uriToMetadata st u else ret None)
               (\<lambda>m. ret \<lparr>metadata = m, uri = u\<rparr>)
         | Metadata fs \<Rightarrow>
             (let m = JObj (if \<not> truthy (field (JObj fs) ''type'')
                            then setField fs ''type'' (JStr type) else fs)
              in andThen (metadataToUri st m) (\<lambda>u. ret \<lparr>metadata = Some m, uri = u\<rparr>))))"

section \<open>Link operations (\<open>LinkContract\<close>)\<close>

text \<open>
  Modelled from the spec: the decorator \<open>autoSwitchMainnet\<close> of \<open>src/contract/decorators\<close>
  is not among the sources. Section 4.4 of the specification: before a mutating call the
  active network must equal the contract's deployment network; if not, a switch is
  triggered and the call goes on once it succeeds, or fails with \<open>WrongNetwork\<close>.
\<close>

definition autoSwitchMainnet :: "chain \<Rightarrow> 'a io \<Rightarrow> 'a io" where
  "autoSwitchMainnet c body =
     (if currentNetworkId c = deploymentNetworkId c then body
      else if switchNetwork c (deploymentNetworkId c) then body
      else throw WrongNetwork)"

text \<open>
  Modelled from the spec: \<open>validateAddress\<close> of \<open>src/utils\<close> is not among the sources.
  Section 4.5 of the specification: an address that is not well-formed fails with
  \<open>InvalidAddress\<close>. Well-formedness itself is the chain library's \<open>isAddress\<close>.
\<close>

definition validateAddress :: "chain \<Rightarrow> address \<Rightarrow> unit io" where
  "validateAddress c a = (if isAddress c a then ret () else throw InvalidAddress)"

text \<open>
  The identifiers are taken after the coercion \<open>BigInt(...)\<close>, as integers. An optional
  parameter is an \<open>option\<close>; \<open>data ?? NIL_ADDRESS\<close> and the default \<open>data = NIL_ADDRESS\<close>
  both read \<open>None\<close> as \<open>NIL_ADDRESS\<close>.
\<close>

definition orNil :: "chain \<Rightarrow> string option \<Rightarrow> jsval" where
  "orNil c d = (case d of None \<Rightarrow> JStr (NIL_ADDRESS c) | Some x \<Rightarrow> JStr x)"

definition linkCharacter ::
  "chain \<Rightarrow> int \<Rightarrow> int \<Rightarrow> string \<Rightarrow> string option \<Rightarrow> result io" where
  "linkCharacter c fromCharacterId toCharacterId linkType d =
     autoSwitchMainnet c
      (andThen (lift (pad (toHex linkType))) (\<lambda>lt.
       andThen (contractWrite c
         \<lparr>contract = Entry, functionName = ''linkCharacter'',
          callArgs = [JObj [(''fromCharacterId'', BigInt fromCharacterId),
                            (''toCharacterId'', BigInt toCharacterId),
                            (''linkType'', Hex lt),
                            (''data'', orNil c d)]]\<rparr>) (\<lambda>hash.
       andThen (lift (waitForTransactionReceipt c hash)) (\<lambda>receipt.
       andThen (lift (parseLog (logs receipt) ''LinkCharacter'' True)) (\<lambda>parser.
       ret \<lparr>data = arg parser ''linklistId'',
            transactionHash = Some (receipt.transactionHash receipt)\<rparr>)))))"

definition linkCharactersInBatch ::
  "chain \<Rightarrow> int \<Rightarrow> int list \<Rightarrow> address list \<Rightarrow> string \<Rightarrow> address list option
     \<Rightarrow> result io" where
  "linkCharactersInBatch c fromCharacterId toCharacterIds toAddresses linkType d =
     autoSwitchMainnet c
      (andThen (forEach (validateAddress c) toAddresses) (\<lambda>_.
       andThen (lift (pad (toHex linkType))) (\<lambda>lt.
       andThen (contractWrite c
         \<lparr>contract = Periphery, functionName = ''linkCharactersInBatch'',
          callArgs = [JObj [(''fromCharacterId'', BigInt fromCharacterId),
                            (''toCharacterIds'', JArr (map BigInt toCharacterIds)),
                            (''toAddresses'', JArr (map JStr toAddresses)),
                            (''linkType'', Hex lt),
                            (''data'', JArr (case d of
                                 None \<Rightarrow> map (\<lambda>_. JStr (NIL_ADDRESS c)) toCharacterIds
                               | Some ds \<Rightarrow> map JStr ds))]]\<rparr>) (\<lambda>hash.
       andThen (lift (waitForTransactionReceipt c hash)) (\<lambda>receipt.
       andThen (lift (parseLog (logs receipt) ''LinkCharacter'' False)) (\<lambda>log.
       ret \<lparr>data = arg log ''linklistId'',
            transactionHash = Some (receipt.transactionHash receipt)\<rparr>))))))"

definition getLinklistIdByTransaction :: "chain \<Rightarrow> hash \<Rightarrow> result io" where
  "getLinklistIdByTransaction c hash =
     andThen (lift (getTransactionReceipt c hash)) (\<lambda>receipt.
     andThen (lift (parseLog (logs receipt) ''LinkCharacter'' True)) (\<lambda>parser.
     ret \<lparr>data = arg parser ''linklistId'', transactionHash = None\<rparr>))"

definition createThenLinkCharacter ::
  "chain \<Rightarrow> int \<Rightarrow> address \<Rightarrow> string \<Rightarrow> result io" where
  "createThenLinkCharacter c fromCharacterId toAddress linkType =
     autoSwitchMainnet c
      (andThen (validateAddress c toAddress) (\<lambda>_.
       andThen (lift (pad (toHex linkType))) (\<lambda>lt.
       andThen (contractWrite c
         \<lparr>contract = Entry, functionName = ''createThenLinkCharacter'',
          callArgs = [JObj [(''fromCharacterId'', BigInt fromCharacterId),
                            (''to'', JStr toAddress),
                            (''linkType'', Hex lt)]]\<rparr>) (\<lambda>hash.
       andThen (lift (waitForTransactionReceipt c hash)) (\<lambda>receipt.
       andThen (lift (parseLog (logs receipt) ''CharacterCreated'' True))
         (\<lambda>createCharacterParser.
       andThen (lift (parseLog (logs receipt) ''LinkCharacter'' True))
         (\<lambda>linkCharacterParser.
       ret \<lparr>data = JObj [(''toCharacterId'', arg createCharacterParser ''characterId''),
                          (''linklistId'', arg linkCharacterParser ''linklistId'')],
            transactionHash = Some (receipt.transactionHash receipt)\<rparr>)))))))"

definition unlinkCharacter :: "chain \<Rightarrow> int \<Rightarrow> int \<Rightarrow> string \<Rightarrow> result io" where
  "unlinkCharacter c fromCharacterId toCharacterId linkType =
     autoSwitchMainnet c
      (andThen (lift (pad (toHex linkType))) (\<lambda>lt.
       andThen (contractWrite c
         \<lparr>contract = Entry, functionName = ''unlinkCharacter'',
          callArgs = [JObj [(''fromCharacterId'', BigInt fromCharacterId),
                            (''toCharacterId'', BigInt toCharacterId),
                            (''linkType'', Hex lt)]]\<rparr>) (\<lambda>hash.
       andThen (lift (waitForTransactionReceipt c hash)) (\<lambda>receipt.
       ret \<lparr>data = Undefined,
            transactionHash = Some (receipt.transactionHash receipt)\<rparr>))))"

definition getLinkingCharacterIds :: "chain \<Rightarrow> int \<Rightarrow> string \<Rightarrow> result io" where
  "getLinkingCharacterIds c fromCharacterId linkType =
     andThen (lift (pad (toHex linkType))) (\<lambda>lt.
     andThen (lift (readContract c
         \<lparr>contract = Periphery, functionName = ''getLinkingCharacterIds'',
          callArgs = [BigInt fromCharacterId, Hex lt]\<rparr>)) (\<lambda>linkList.
     (case linkList of
        JArr links \<Rightarrow> ret \<lparr>data = JArr (map (\<lambda>link. link) links), transactionHash = None\<rparr>
      | _ \<Rightarrow> throw TypeError)))"

definition getLinkingCharacters :: "chain \<Rightarrow> int \<Rightarrow> string \<Rightarrow> result io" where
  "getLinkingCharacters c fromCharacterId linkType =
     andThen (lift (pad (toHex linkType))) (\<lambda>lt.
     andThen (lift (readContract c
         \<lparr>contract = Periphery, functionName = ''getLinkingCharacterIds'',
          callArgs = [BigInt fromCharacterId, Hex lt]\<rparr>)) (\<lambda>ids.
     (case ids of
        JArr is \<Rightarrow>
          andThen (mapIO (\<lambda>i. lift (characterGet c i)) is) (\<lambda>characters.
          ret \<lparr>data = JArr (map (\<lambda>character. field character ''data'') characters),
               transactionHash = None\<rparr>)
      | _ \<Rightarrow> throw TypeError)))"

definition linkAddress ::
  "chain \<Rightarrow> int \<Rightarrow> address \<Rightarrow> string \<Rightarrow> string option \<Rightarrow> result io" where
  "linkAddress c fromCharacterId toAddress linkType d =
     autoSwitchMainnet c
      (andThen (lift (pad (toHex linkType))) (\<lambda>lt.
       andThen (contractWrite c
         \<lparr>contract = Entry, functionName = ''linkAddress'',
          callArgs = [JObj [(''fromCharacterId'', BigInt fromCharacterId),
                            (''ethAddress'', JStr toAddress),
                            (''linkType'', Hex lt),
                            (''data'', orNil c d)]]\<rparr>) (\<lambda>hash.
       andThen (lift (waitForTransactionReceipt c hash)) (\<lambda>receipt.
       andThen (lift (parseLog (logs receipt) ''LinkAddress'' True)) (\<lambda>parser.
       ret \<lparr>data = arg parser ''linklistId'',
            transactionHash = Some (receipt.transactionHash receipt)\<rparr>)))))"

definition unlinkAddress ::
  "chain \<Rightarrow> int \<Rightarrow> address \<Rightarrow> string \<Rightarrow> result io" where
  "unlinkAddress c fromCharacterId toAddress linkType =
     autoSwitchMainnet c
      (andThen (lift (pad (toHex linkType))) (\<lambda>lt.
       andThen (contractWrite c
         \<lparr>contract = Entry, functionName = ''unlinkAddress'',
          callArgs = [JObj [(''fromCharacterId'', BigInt fromCharacterId),
                            (''ethAddress'', JStr toAddress),
                            (''linkType'', Hex lt)]]\<rparr>) (\<lambda>hash.
       andThen (lift (waitForTransactionReceipt c hash)) (\<lambda>receipt.
       ret \<lparr>data = Undefined,
            transactionHash = Some (receipt.transactionHash receipt)\<rparr>))))"

definition linkAnyUri ::
  "chain \<Rightarrow> int \<Rightarrow> string \<Rightarrow> string \<Rightarrow> string option \<Rightarrow> result io" where
  "linkAnyUri c fromCharacterId toUri linkType d =
     autoSwitchMainnet c
      (andThen (lift (pad (toHex linkType))) (\<lambda>lt.
       andThen (contractWrite c
         \<lparr>contract = Entry, functionName = ''linkAnyUri'',
          callArgs = [JObj [(''fromCharacterId'', BigInt fromCharacterId),
                            (''toUri'', JStr toUri),
                            (''linkType'', Hex lt),
                            (''data'', orNil c d)]]\<rparr>) (\<lambda>hash.
       andThen (lift (waitForTransactionReceipt c hash)) (\<lambda>receipt.
       andThen (lift (parseLog (logs receipt) ''LinkAnyUri'' True)) (\<lambda>parser.
       ret \<lparr>data = arg parser ''linklistId'',
            transactionHash = Some (receipt.transactionHash receipt)\<rparr>)))))"

definition unlinkAnyUri ::
  "chain \<Rightarrow> int \<Rightarrow> string \<Rightarrow> string \<Rightarrow> result io" where
  "unlinkAnyUri c fromCharacterId toUri linkType =
     autoSwitchMainnet c
      (andThen (lift (pad (toHex linkType))) (\<lambda>lt.
       andThen (contractWrite c
         \<lparr>contract = Entry, functionName = ''unlinkAnyUri'',
          callArgs = [JObj [(''fromCharacterId'', BigInt fromCharacterId),
                            (''toUri'', JStr toUri),
                            (''linkType'', Hex lt)]]\<rparr>) (\<lambda>hash.
       andThen (lift (waitForTransactionReceipt c hash)) (\<lambda>receipt.
       ret \<lparr>data = Undefined,
            transactionHash = Some (receipt.transactionHash receipt)\<rparr>))))"

definition linkErc721 ::
  "chain \<Rightarrow> int \<Rightarrow> address \<Rightarrow> int \<Rightarrow> string \<Rightarrow> string option \<Rightarrow> result io" where
  "linkErc721 c fromCharacterId toContractAddress toTokenId linkType d =
     autoSwitchMainnet c
      (andThen (lift (pad (toHex linkType))) (\<lambda>lt.
       andThen (contractWrite c
         \<lparr>contract = Entry, functionName = ''linkERC721'',
          callArgs = [JObj [(''fromCharacterId'', BigInt fromCharacterId),
                            (''tokenAddress'', JStr toContractAddress),
                            (''tokenId'', BigInt toTokenId),
                            (''linkType'', Hex lt),
                            (''data'', orNil c d)]]\<rparr>) (\<lambda>hash.
       andThen (lift (waitForTransactionReceipt c hash)) (\<lambda>receipt.
       andThen (lift (parseLog (logs receipt) ''LinkAnyUri'' True)) (\<lambda>parser.
       ret \<lparr>data = arg parser ''linklistId'',
            transactionHash = Some (receipt.transactionHash receipt)\<rparr>)))))"

definition unlinkErc721 ::
  "chain \<Rightarrow> int \<Rightarrow> address \<Rightarrow> int \<Rightarrow> string \<Rightarrow> result io" where
  "unlinkErc721 c fromCharacterId toContractAddress toTokenId linkType =
     autoSwitchMainnet c
      (andThen (lift (pad (toHex linkType))) (\<lambda>lt.
       andThen (contractWrite c
         \<lparr>contract = Entry, functionName = ''unlinkERC721'',
          callArgs = [JObj [(''fromCharacterId'', BigInt fromCharacterId),
                            (''tokenAddress'', JStr toContractAddress),
                            (''tokenId'', BigInt toTokenId),
                            (''linkType'', Hex lt)]]\<rparr>) (\<lambda>hash.
       andThen (lift (waitForTransactionReceipt c hash)) (\<lambda>receipt.
       ret \<lparr>data = Undefined,
            transactionHash = Some (receipt.transactionHash receipt)\<rparr>))))"

definition linkNote ::
  "chain \<Rightarrow> int \<Rightarrow> int \<Rightarrow> int \<Rightarrow> string \<Rightarrow> string option \<Rightarrow> result io" where
  "linkNote c fromCharacterId toCharacterId toNoteId linkType d =
     autoSwitchMainnet c
      (andThen (lift (pad (toHex linkType))) (\<lambda>lt.
       andThen (contractWrite c
         \<lparr>contract = Entry, functionName = ''linkNote'',
          callArgs = [JObj [(''fromCharacterId'', BigInt fromCharacterId),
                            (''toCharacterId'', BigInt toCharacterId),
                            (''toNoteId'', BigInt toNoteId),
                            (''linkType'', Hex lt),
                            (''data'', orNil c d)]]\<rparr>) (\<lambda>hash.
       andThen (lift (waitForTransactionReceipt c hash)) (\<lambda>receipt.
       andThen (lift (parseLog (logs receipt) ''LinkNote'' True)) (\<lambda>parser.
       ret \<lparr>data = arg parser ''linklistId'',
            transactionHash = Some (receipt.transactionHash receipt)\<rparr>)))))"

definition unlinkNote ::
  "chain \<Rightarrow> int \<Rightarrow> int \<Rightarrow> int \<Rightarrow> string \<Rightarrow> result io" where
  "unlinkNote c fromCharacterId toCharacterId toNoteId linkType =
     autoSwitchMainnet c
      (andThen (lift (pad (toHex linkType))) (\<lambda>lt.
       andThen (contractWrite c
         \<lparr>contract = Entry, functionName = ''unlinkNote'',
          callArgs = [JObj [(''fromCharacterId'', BigInt fromCharacterId),
                            (''toCharacterId'', BigInt toCharacterId),
                            (''toNoteId'', BigInt toNoteId),
                            (''linkType'', Hex lt)]]\<rparr>) (\<lambda>hash.
       andThen (lift (waitForTransactionReceipt c hash)) (\<lambda>receipt.
       ret \<lparr>data = Undefined,
            transactionHash = Some (receipt.transactionHash receipt)\<rparr>))))"

definition linkLinklist ::
  "chain \<Rightarrow> int \<Rightarrow> int \<Rightarrow> string \<Rightarrow> string option \<Rightarrow> result io" where
  "linkLinklist c fromCharacterId toLinkListId linkType d =
     autoSwitchMainnet c
      (andThen (lift (pad (toHex linkType))) (\<lambda>lt.
       andThen (contractWrite c
         \<lparr>contract = Entry, functionName = ''linkLinklist'',
          callArgs = [JObj [(''fromCharacterId'', BigInt fromCharacterId),
                            (''toLinkListId'', BigInt toLinkListId),
                            (''linkType'', Hex lt),
                            (''data'', orNil c d)]]\<rparr>) (\<lambda>hash.
       andThen (lift (waitForTransactionReceipt c hash)) (\<lambda>receipt.
       andThen (lift (parseLog (logs receipt) ''LinkNote'' True)) (\<lambda>parser.
       ret \<lparr>data = arg parser ''linklistId'',
            transactionHash = Some (receipt.transactionHash receipt)\<rparr>)))))"

definition unlinkLinklist ::
  "chain \<Rightarrow> int \<Rightarrow> int \<Rightarrow> string \<Rightarrow> result io" where
  "unlinkLinklist c fromCharacterId toLinklistId linkType =
     autoSwitchMainnet c
      (andThen (lift (pad (toHex linkType))) (\<lambda>lt.
       andThen (contractWrite c
         \<lparr>contract = Entry, functionName = ''unlinkLinklist'',
          callArgs = [JObj [(''fromCharacterId'', BigInt fromCharacterId),
                            (''toLinkListId'', BigInt toLinklistId),
                            (''linkType'', Hex lt)]]\<rparr>) (\<lambda>hash.
       andThen (lift (waitForTransactionReceipt c hash)) (\<lambda>receipt.
       ret \<lparr>data = Undefined,
            transactionHash = Some (receipt.transactionHash receipt)\<rparr>))))"

text \<open>The two linklist URI operations carry no network guard in the source.\<close>

definition setLinklistUri :: "chain \<Rightarrow> int \<Rightarrow> string \<Rightarrow> result io" where
  "setLinklistUri c fromCharacterId u =
     andThen (contractWrite c
       \<lparr>contract = Entry, functionName = ''setLinklistUri'',
        callArgs = [BigInt fromCharacterId, JStr u]\<rparr>) (\<lambda>tx.
     andThen (lift (waitForTransactionReceipt c tx)) (\<lambda>receipt.
     ret \<lparr>data = Undefined,
          transactionHash = Some (receipt.transactionHash receipt)\<rparr>))"

definition getLinklistUri :: "chain \<Rightarrow> int \<Rightarrow> result io" where
  "getLinklistUri c fromCharacterId =
     andThen (lift (readContract c
       \<lparr>contract = Entry, functionName = ''getLinklistUri'',
        callArgs = [BigInt fromCharacterId]\<rparr>)) (\<lambda>u.
     ret \<lparr>data = u, transactionHash = None\<rparr>)"

section \<open>Note operations (\<open>src/contract/subcontracts/note.ts\<close>)\<close>

text \<open>
  \<open>BigNumber.toNumber().toString()\<close>: the decimal digits of an integer that fits a
  JavaScript number; a larger one is a numeric fault of the library.
\<close>

fun decimalNat :: "nat \<Rightarrow> string" where
  "decimalNat n =
     (if n < 10 then [char_of (48 + n)]
      else decimalNat (n div 10) @ [char_of (48 + n mod 10)])"

definition decimal :: "int \<Rightarrow> string" where
  "decimal n = (if n < 0 then CHR ''-'' # decimalNat (nat (- n)) else decimalNat (nat n))"

definition toNumberString :: "jsval \<Rightarrow> error + jsval" where
  "toNumberString v =
     (case v of
        BigInt n \<Rightarrow> if \<bar>n\<bar> < 2 ^ 53 then Inr (JStr (decimal n)) else Inl NumericFault
      | _ \<Rightarrow> Inl TypeError)"

definition postNote :: "chain \<Rightarrow> store \<Rightarrow> string \<Rightarrow> metadataOrUri \<Rightarrow> result io" where
  "postNote c st profileId metadataOrUri =
     andThen (parseMetadataOrUri st ''note'' metadataOrUri False) (\<lambda>p.
     andThen (contractWrite c
       \<lparr>contract = Entry, functionName = ''postNote'',
        callArgs = [JObj [(''profileId'', JStr profileId),
                          (''contentUri'', JStr (uri p)),
                          (''linkModule'', JStr (NIL_ADDRESS c)),
                          (''linkModuleInitData'', JStr (NIL_ADDRESS c)),
                          (''mintModule'', JStr (NIL_ADDRESS c)),
                          (''mintModuleInitData'', JStr (NIL_ADDRESS c))]]\<rparr>) (\<lambda>tx.
     andThen (lift (waitForTransactionReceipt c tx)) (\<lambda>receipt.
     andThen (lift (parseLog (logs receipt) ''postNote'' True)) (\<lambda>log.
     andThen (lift (toNumberString (arg log ''noteId''))) (\<lambda>noteId.
     ret \<lparr>data = JObj [(''noteId'', noteId)],
          transactionHash = Some (receipt.transactionHash receipt)\<rparr>)))))"

definition getNote :: "chain \<Rightarrow> store \<Rightarrow> string \<Rightarrow> string \<Rightarrow> result io" where
  "getNote c st profileId noteId =
     andThen (lift (readContract c
       \<lparr>contract = Entry, functionName = ''getNote'',
        callArgs = [JStr profileId, JStr noteId]\<rparr>)) (\<lambda>d.
     andThen (case field d ''linkItemType'' of
                Hex b \<Rightarrow> ret (decodeLinkType b)
              | _ \<Rightarrow> throw TypeError) (\<lambda>linkItemTypeString.
     andThen (case field d ''contentUri'' of
                JStr u \<Rightarrow> if u \<noteq> [] then uriToMetadata st u else ret None
              | v \<Rightarrow> if truthy v then throw TypeError else ret None) (\<lambda>m.
     ret \<lparr>data = JObj [(''profileId'', JStr profileId),
                        (''noteId'', JStr noteId),
                        (''contentUri'', field d ''contentUri''),
                        (''metadata'', (case m of None \<Rightarrow> Undefined | Some j \<Rightarrow> j)),
                        (''linkItemTypeBytes32'', field d ''linkItemType''),
                        (''linkItemType'',
                           (if linkItemTypeString = [] then Undefined
                            else JStr linkItemTypeString)),
                        (''linkKey'', field d ''linkKey''),
                        (''linkModule'', field d ''linkModule''),
                        (''mintNFT'', field d ''mintNFT''),
                        (''mintModule'', field d ''mintModule''),
                        (''deleted'', field d ''deleted'')],
          transactionHash = None\<rparr>)))"

definition mintNote :: "chain \<Rightarrow> string \<Rightarrow> string \<Rightarrow> address \<Rightarrow> result io" where
  "mintNote c profileId noteId toAddress =
     andThen (contractWrite c
       \<lparr>contract = Entry, functionName = ''mintNote'',
        callArgs = [JObj [(''profileId'', JStr profileId),
                          (''noteId'', JStr noteId),
                          (''to'', JStr toAddress),
                          (''mintModuleData'', JStr (NIL_ADDRESS c))]]\<rparr>) (\<lambda>tx.
     andThen (lift (waitForTransactionReceipt c tx)) (\<lambda>receipt.
     ret \<lparr>data = Undefined,
          transactionHash = Some (receipt.transactionHash receipt)\<rparr>))"

section \<open>The operations as one family\<close>

text \<open>
  Every operation of the two contract classes, with its arguments. \<open>hasTxHash\<close> is the
  second type argument of the declared return type \<open>Result<T, HasTxHash>\<close>: true for
  the operations declared \<open>Result<T, true>\<close>, false for those declared \<open>Result<T>\<close>.
\<close>

datatype operation =
    LinkCharacter int int string "string option"
  | LinkCharactersInBatch int "int list" "address list" string "address list option"
  | GetLinklistIdByTransaction hash
  | CreateThenLinkCharacter int address string
  | UnlinkCharacter int int string
  | GetLinkingCharacterIds int string
  | GetLinkingCharacters int string
  | LinkAddress int address string "string option"
  | UnlinkAddress int address string
  | LinkAnyUri int string string "string option"
  | UnlinkAnyUri int string string
  | LinkErc721 int address int string "string option"
  | UnlinkErc721 int address int string
  | LinkNote int int int string "string option"
  | UnlinkNote int int int string
  | LinkLinklist int int string "string option"
  | UnlinkLinklist int int string
  | SetLinklistUri int string
  | GetLinklistUri int
  | PostNote string metadataOrUri
  | GetNote string string
  | MintNote string string address

fun perform :: "chain \<Rightarrow> store \<Rightarrow> operation \<Rightarrow> result io" where
  "perform c st (LinkCharacter f t lt d) = linkCharacter c f t lt d"
| "perform c st (LinkCharactersInBatch f ts as lt d) = linkCharactersInBatch c f ts as lt d"
| "perform c st (GetLinklistIdByTransaction h) = getLinklistIdByTransaction c h"
| "perform c st (CreateThenLinkCharacter f a lt) = createThenLinkCharacter c f a lt"
| "perform c st (UnlinkCharacter f t lt) = unlinkCharacter c f t lt"
| "perform c st (GetLinkingCharacterIds f lt) = getLinkingCharacterIds c f lt"
| "perform c st (GetLinkingCharacters f lt) = getLinkingCharacters c f lt"
| "perform c st (LinkAddress f a lt d) = linkAddress c f a lt d"
| "perform c st (UnlinkAddress f a lt) = unlinkAddress c f a lt"
| "perform c st (LinkAnyUri f u lt d) = linkAnyUri c f u lt d"
| "perform c st (UnlinkAnyUri f u lt) = unlinkAnyUri c f u lt"
| "perform c st (LinkErc721 f a t lt d) = linkErc721 c f a t lt d"
| "perform c st (UnlinkErc721 f a t lt) = unlinkErc721 c f a t lt"
| "perform c st (LinkNote f t n lt d) = linkNote c f t n lt d"
| "perform c st (UnlinkNote f t n lt) = unlinkNote c f t n lt"
| "perform c st (LinkLinklist f l lt d) = linkLinklist c f l lt d"
| "perform c st (UnlinkLinklist f l lt) = unlinkLinklist c f l lt"
| "perform c st (SetLinklistUri f u) = setLinklistUri c f u"
| "perform c st (GetLinklistUri f) = getLinklistUri c f"
| "perform c st (PostNote p m) = postNote c st p m"
| "perform c st (GetNote p n) = getNote c st p n"
| "perform c st (MintNote p n a) = mintNote c p n a"

fun hasTxHash :: "operation \<Rightarrow> bool" where
  "hasTxHash (GetLinklistIdByTransaction h) = False"
| "hasTxHash (GetLinkingCharacterIds f lt) = False"
| "hasTxHash (GetLinkingCharacters f lt) = False"
| "hasTxHash (GetLinklistUri f) = False"
| "hasTxHash (GetNote p n) = False"
| "hasTxHash _ = True"

text \<open>The unlink variants, whose \<open>data\<close> is \<open>undefined\<close> by construction.\<close>

fun isUnlink :: "operation \<Rightarrow> bool" where
  "isUnlink (UnlinkCharacter f t lt) = True"
| "isUnlink (UnlinkAddress f a lt) = True"
| "isUnlink (UnlinkAnyUri f u lt) = True"
| "isUnlink (UnlinkErc721 f a t lt) = True"
| "isUnlink (UnlinkNote f t n lt) = True"
| "isUnlink (UnlinkLinklist f l lt) = True"
| "isUnlink _ = False"

section \<open>Sample environments\<close>

text \<open>
  Concrete collaborators on which the theorems below are exhibited: an event carrying a
  linklist id; a chain client on its deployment network that accepts every call, answers
  with the hash \<open>0x01\<close> and a receipt holding the given events; a content store whose
  first \<open>n\<close> requests fail and whose later ones are answered; and the world before any
  call. The store's two URL tests answer as the libraries do on the URIs used below:
  \<open>isIpfsUrl\<close> recognises \<open>ipfs://\<close> followed by an identifier and not the bare
  scheme, and \<open>isIpfs.url\<close>, which knows gateway URLs only, accepts none of them.
\<close>

definition sampleEvent :: "string \<Rightarrow> int \<Rightarrow> event" where
  "sampleEvent n i = \<lparr>eventName = n, args = [(''linklistId'', BigInt i)]\<rparr>"

definition sampleChain :: "event list \<Rightarrow> chain" where
  "sampleChain evs =
     \<lparr>NIL_ADDRESS = ''0x0000000000000000000000000000000000000000'',
      currentNetworkId = 3737, deploymentNetworkId = 3737,
      switchNetwork = (\<lambda>_. False),
      isAddress = (\<lambda>a. length a = 42),
      writeContract = (\<lambda>_. Inr ''0x01''),
      waitForTransactionReceipt = (\<lambda>h. Inr \<lparr>receipt.transactionHash = h, logs = evs\<rparr>),
      getTransactionReceipt = (\<lambda>h. Inr \<lparr>receipt.transactionHash = h, logs = evs\<rparr>),
      readContract = (\<lambda>_. Inr (JArr [])),
      characterGet = (\<lambda>_. Inl Reverted)\<rparr>"

definition flakyStore :: "nat \<Rightarrow> store" where
  "flakyStore n =
     \<lparr>postJson = (\<lambda>k url body. if k < n then Inl FetchFailed
                                 else Inr (JObj [(''url'', JStr ''ipfs://cid'')])),
      fetchText = (\<lambda>k url. if k < n then Inl FetchFailed else Inr ''{}''),
      ipfsFetchText = (\<lambda>k url. if k < n then Inl FetchFailed else Inr ''{}''),
      jsonParse = (\<lambda>s. if s = ''{}'' then Some (JObj []) else None),
      isIpfsUrl = (\<lambda>u. take 7 u = ''ipfs://'' \<and> 7 < length u),
      isIpfs_url = (\<lambda>u. False)\<rparr>"

definition emptyWorld :: world where
  "emptyWorld = \<lparr>submitted = [], requests = [], errorLog = []\<rparr>"

section \<open>Properties of the event log matcher\<close>

lemma filter_single:
  "filter P xs = [e] \<Longrightarrow> e \<in> set xs \<and> P e"
proof -
  assume h: "filter P xs = [e]"
  have "e \<in> set (filter P xs)" by (simp add: h)
  then show ?thesis by simp
qed

text \<open>
  Claim C1. In strict mode (multiple matches not allowed) the matcher returns the unique
  event whose name matches when exactly one does, fails with \<open>EventNotFound\<close> when none
  does, and fails with \<open>AmbiguousEvent\<close> when more than one does.
\<close>

theorem matchEvents_strict:
  "(length (filter (\<lambda>e. eventName e = name) events) = 0
      \<longrightarrow> matchEvents events name False = Inl EventNotFound)
   \<and> (length (filter (\<lambda>e. eventName e = name) events) = 1
      \<longrightarrow> (\<exists>e. filter (\<lambda>e. eventName e = name) events = [e] \<and> e \<in> set events
             \<and> eventName e = name \<and> matchEvents events name False = Inr (Single e)))
   \<and> (1 < length (filter (\<lambda>e. eventName e = name) events)
      \<longrightarrow> matchEvents events name False = Inl AmbiguousEvent)"
proof (cases "filter (\<lambda>e. eventName e = name) events")
  case Nil
  then show ?thesis by (simp add: matchEvents_def)
next
  case (Cons e rest)
  show ?thesis
  proof (cases rest)
    case Nil
    with Cons have one: "filter (\<lambda>e. eventName e = name) events = [e]" by simp
    from filter_single [OF one] one show ?thesis by (simp add: matchEvents_def)
  next
    case (Cons e' rest')
    with \<open>filter (\<lambda>e. eventName e = name) events = e # rest\<close> show ?thesis
      by (simp add: matchEvents_def)
  qed
qed

theorem matchEvents_strict_witness:
  "matchEvents [\<lparr>eventName = ''Transfer'', args = []\<rparr>] ''LinkCharacter'' False
     = Inl EventNotFound
   \<and> matchEvents [\<lparr>eventName = ''Transfer'', args = []\<rparr>,
                   \<lparr>eventName = ''LinkCharacter'', args = [(''linklistId'', BigInt 42)]\<rparr>]
        ''LinkCharacter'' False
       = Inr (Single \<lparr>eventName = ''LinkCharacter'', args = [(''linklistId'', BigInt 42)]\<rparr>)
   \<and> matchEvents [\<lparr>eventName = ''LinkCharacter'', args = [(''linklistId'', BigInt 7)]\<rparr>,
                   \<lparr>eventName = ''LinkCharacter'', args = [(''linklistId'', BigInt 9)]\<rparr>]
        ''LinkCharacter'' False = Inl AmbiguousEvent"
  using
    matchEvents_strict [of "''LinkCharacter''" "[\<lparr>eventName = ''Transfer'', args = []\<rparr>]"]
    matchEvents_strict [of "''LinkCharacter''"
      "[\<lparr>eventName = ''Transfer'', args = []\<rparr>,
        \<lparr>eventName = ''LinkCharacter'', args = [(''linklistId'', BigInt 42)]\<rparr>]"]
    matchEvents_strict [of "''LinkCharacter''"
      "[\<lparr>eventName = ''LinkCharacter'', args = [(''linklistId'', BigInt 7)]\<rparr>,
        \<lparr>eventName = ''LinkCharacter'', args = [(''linklistId'', BigInt 9)]\<rparr>]"]
  by simp

section \<open>Properties of the link type codec\<close>

lemma toHex_inverse: "fromUtf8 (toHex s) = s"
proof -
  have "char_of (unat (of_nat (of_char c :: nat) :: 8 word)) = c" for c
    by (simp add: unat_of_nat take_bit_eq_mod)
  then show ?thesis by (simp add: fromUtf8_def toHex_def map_idI)
qed

lemma nat_of_char_zero: "(of_char c :: nat) = 0 \<longleftrightarrow> c = CHR 0x00"
proof -
  have z: "(of_char (CHR 0x00) :: nat) = 0" by simp
  have "(of_char c :: nat) = of_char (CHR 0x00) \<longleftrightarrow> c = CHR 0x00"
    by (rule of_char_eq_iff)
  with z show ?thesis by simp
qed

lemma byte_of_char_zero: "(of_nat (of_char c :: nat) :: 8 word) = 0 \<longleftrightarrow> c = CHR 0x00"
proof -
  have "unat (of_nat (of_char c :: nat) :: 8 word) = of_char c"
    by (simp add: unat_of_nat take_bit_eq_mod)
  then have "(of_nat (of_char c :: nat) :: 8 word) = 0 \<longleftrightarrow> (of_char c :: nat) = 0"
    by (metis unat_eq_zero)
  then show ?thesis by (simp add: nat_of_char_zero)
qed

lemma dropWhile_replicate_zero:
  "dropWhile (\<lambda>b. b = (0::byte)) (replicate k 0 @ xs) = dropWhile (\<lambda>b. b = 0) xs"
  by (induction k) simp_all

lemma strip_replicate: "stripTrailingZeros (bs @ replicate k 0) = stripTrailingZeros bs"
  by (simp add: stripTrailingZeros_def dropWhile_replicate_zero)

lemma strip_id: "bs = [] \<or> last bs \<noteq> 0 \<Longrightarrow> stripTrailingZeros bs = bs"
  by (cases bs rule: rev_cases) (auto simp: stripTrailingZeros_def)

lemma last_toHex: "s \<noteq> [] \<Longrightarrow> last (toHex s) = of_nat (of_char (last s))"
  by (simp add: toHex_def last_map)

text \<open>
  Claim C3, as amended. For every string \<open>s\<close> whose UTF-8 byte length is at most 32 and
  which does not end with the character NUL, encoding succeeds with 32 bytes and
  decoding them yields \<open>s\<close> back.
\<close>

theorem linkType_roundtrip:
  assumes "length (toHex s) \<le> 32" and "s = [] \<or> last s \<noteq> CHR 0x00"
  shows "\<exists>b. encodeLinkType s = Inr b \<and> length b = 32 \<and> decodeLinkType b = s"
proof -
  have enc: "encodeLinkType s = Inr (toHex s @ replicate (32 - length (toHex s)) 0)"
    using assms(1) by (simp add: encodeLinkType_def pad_def)
  have "toHex s = [] \<or> last (toHex s) \<noteq> 0"
  proof (cases "s = []")
    case True
    then show ?thesis by (simp add: toHex_def)
  next
    case False
    with assms(2) show ?thesis by (simp add: last_toHex byte_of_char_zero)
  qed
  then have "stripTrailingZeros (toHex s @ replicate (32 - length (toHex s)) 0) = toHex s"
    by (simp add: strip_replicate strip_id)
  then have "decodeLinkType (toHex s @ replicate (32 - length (toHex s)) 0) = s"
    by (simp add: decodeLinkType_def toHex_inverse)
  with enc assms(1) show ?thesis by simp
qed

theorem linkType_roundtrip_witness:
  "encodeLinkType ''follow'' = Inr (toHex ''follow'' @ replicate 26 0)
   \<and> decodeLinkType (toHex ''follow'' @ replicate 26 0) = ''follow''"
proof -
  have a: "length (toHex ''follow'') \<le> 32" by (simp add: toHex_def)
  have b: "''follow'' = [] \<or> last ''follow'' \<noteq> CHR 0x00" by simp
  have e: "encodeLinkType ''follow'' = Inr (toHex ''follow'' @ replicate 26 0)"
    by (simp add: encodeLinkType_def pad_def toHex_def)
  from linkType_roundtrip [OF a b] e show ?thesis by auto
qed

text \<open>
  Claim C3 as stated fails on the one-character string NUL: its single byte is within
  the width, it is encoded as 32 zero bytes, and they decode to the empty string.
\<close>

theorem linkType_roundtrip_counterexample:
  "length (toHex [CHR 0x00]) \<le> 32
   \<and> encodeLinkType [CHR 0x00] = Inr (replicate 32 0)
   \<and> decodeLinkType (replicate 32 0) = []
   \<and> decodeLinkType (replicate 32 0) \<noteq> [CHR 0x00]"
  by (simp add: encodeLinkType_def pad_def toHex_def decodeLinkType_def stripTrailingZeros_def
      fromUtf8_def replicate_append_same [symmetric] numeral_eq_Suc del: replicate_append_same)

text \<open>
  Claim C4. Encoding a string as a link type fails with \<open>ValueTooLong\<close> when its UTF-8
  byte length exceeds 32, and only then: a string of at most 32 bytes is encoded as 32
  bytes that start with all of its bytes, none cut off, followed by zero bytes. In
  \<open>linkCharacter\<close> the failure comes before anything is submitted.
\<close>

theorem encodeLinkType_width:
  "(32 < length (toHex s) \<longrightarrow> encodeLinkType s = Inl ValueTooLong)
   \<and> (length (toHex s) \<le> 32 \<longrightarrow>
        (\<exists>b. encodeLinkType s = Inr b \<and> length b = 32
           \<and> take (length (toHex s)) b = toHex s
           \<and> drop (length (toHex s)) b = replicate (32 - length (toHex s)) 0))
   \<and> (32 < length (toHex s)
        \<and> (currentNetworkId c = deploymentNetworkId c
             \<or> switchNetwork c (deploymentNetworkId c))
        \<longrightarrow> linkCharacter c f t s d w = (Inl ValueTooLong, w))"
  by (simp add: encodeLinkType_def pad_def linkCharacter_def autoSwitchMainnet_def
      andThen_def lift_def throw_def)

theorem encodeLinkType_width_witness:
  "encodeLinkType ''abcdefghijklmnopqrstuvwxyz0123456'' = Inl ValueTooLong
   \<and> encodeLinkType ''abcdefghijklmnopqrstuvwxyz012345''
       = Inr (toHex ''abcdefghijklmnopqrstuvwxyz012345'')
   \<and> linkCharacter (sampleChain []) 1 2 ''abcdefghijklmnopqrstuvwxyz0123456'' None emptyWorld
       = (Inl ValueTooLong, emptyWorld)"
  using encodeLinkType_width [of "''abcdefghijklmnopqrstuvwxyz0123456''" "sampleChain []"
          1 2 None emptyWorld]
     encodeLinkType_width [of "''abcdefghijklmnopqrstuvwxyz012345''" "sampleChain []"
          1 2 None emptyWorld]
  by (auto simp: toHex_def sampleChain_def)

section \<open>Properties of the content store\<close>

text \<open>
  Claim C5. With the empty string as input, \<open>parseMetadataOrUri\<close> returns exactly
  \<open>{uri: '', metadata: undefined}\<close> and leaves the world as it was: no upload and no
  fetch, whatever the type and the retrieve flag are.
\<close>

theorem parseMetadataOrUri_empty:
  "parseMetadataOrUri st type (Uri []) retrieveMetadataIfNeeded w
     = (Inr \<lparr>metadata = None, uri = []\<rparr>, w)"
  by (simp add: parseMetadataOrUri_def ret_def)

theorem parseMetadataOrUri_empty_witness:
  "parseMetadataOrUri (flakyStore 0) ''note'' (Uri []) True emptyWorld
     = (Inr \<lparr>metadata = None, uri = []\<rparr>, emptyWorld)
   \<and> requests (snd (parseMetadataOrUri (flakyStore 0) ''note'' (Uri []) True emptyWorld)) = []"
  using parseMetadataOrUri_empty [of "flakyStore 0" "''note''" True emptyWorld]
  by (simp add: emptyWorld_def)






text \<open>
  Claim C8, as amended. For every URI that \<open>isIpfsUrl\<close> recognises and \<open>isIpfs.url\<close>
  rejects, \<open>uriToMetadata\<close> logs the line \<open>Wrong IPFS url: \<close> followed by the URI and
  returns nothing: no error is raised and no request is made. It is the only path that
  returns without a value: whenever \<open>uriToMetadata\<close> returns nothing, the URI is of
  that kind.
\<close>

theorem uriToMetadata_malformed_ipfs:
  "(isIpfsUrl st u \<and> \<not> isIpfs_url st u
      \<longrightarrow> uriToMetadata st u w
            = (Inr None, w\<lparr>errorLog := errorLog w @ [''Wrong IPFS url: '' @ u]\<rparr>))
   \<and> (fst (uriToMetadata st u w) = Inr None \<longrightarrow> isIpfsUrl st u \<and> \<not> isIpfs_url st u)"
  by (auto simp: uriToMetadata_def andThen_def ret_def throw_def catchAll_def logError_def
      ipfsFetch_def httpGet_def split: prod.splits sum.splits option.splits)

theorem uriToMetadata_malformed_ipfs_witness:
  "uriToMetadata (flakyStore 0) ''ipfs://cid'' emptyWorld
     = (Inr None, emptyWorld\<lparr>errorLog := [''Wrong IPFS url: ipfs://cid'']\<rparr>)"
proof -
  have "isIpfsUrl (flakyStore 0) ''ipfs://cid'' \<and> \<not> isIpfs_url (flakyStore 0) ''ipfs://cid''"
    by (simp add: flakyStore_def)
  with uriToMetadata_malformed_ipfs [of "flakyStore 0" "''ipfs://cid''" emptyWorld]
  show ?thesis by (simp add: emptyWorld_def)
qed

text \<open>
  Claim C8 as stated fails on the URI \<open>ipfs://cid\<close>, which \<open>isIpfsUrl\<close> recognises and
  \<open>isIpfs.url\<close> rejects: \<open>uriToMetadata\<close> logs a line, makes no request and returns
  nothing instead of raising \<open>InvalidUri\<close>.
\<close>

theorem uriToMetadata_invalid_uri_counterexample:
  "isIpfsUrl (flakyStore 0) ''ipfs://cid'' \<and> \<not> isIpfs_url (flakyStore 0) ''ipfs://cid''
   \<and> uriToMetadata (flakyStore 0) ''ipfs://cid'' emptyWorld
       = (Inr None, emptyWorld\<lparr>errorLog := [''Wrong IPFS url: ipfs://cid'']\<rparr>)
   \<and> fst (uriToMetadata (flakyStore 0) ''ipfs://cid'' emptyWorld) \<noteq> Inl InvalidUri"
  by (simp add: uriToMetadata_def andThen_def ret_def logError_def flakyStore_def
      emptyWorld_def)

section \<open>Properties of the link operations\<close>

lemma find_filter:
  "List.find P xs = Some e \<Longrightarrow> \<exists>rest. filter P xs = e # rest"
  by (induction xs) (auto split: if_splits)

lemma parseLog_first:
  "List.find (\<lambda>e. eventName e = name) ls = Some e \<Longrightarrow> parseLog ls name False = Inr e"
  by (auto simp: parseLog_def matchEvents_def dest!: find_filter)

lemma parseLog_none:
  "\<forall>e \<in> set ls. eventName e \<noteq> name \<Longrightarrow> parseLog ls name b = Inl EventNotFound"
proof -
  assume "\<forall>e \<in> set ls. eventName e \<noteq> name"
  then have "filter (\<lambda>e. eventName e = name) ls = []" by (induction ls) auto
  then show ?thesis by (simp add: parseLog_def matchEvents_def)
qed

lemma forEach_validate:
  "forEach (validateAddress c) xs w = (r, w') \<Longrightarrow> w' = w"
  by (induction xs arbitrary: r)
     (auto simp: ret_def throw_def andThen_def validateAddress_def
        split: if_splits prod.splits sum.splits)

lemma forEach_validate_ok:
  "\<forall>a \<in> set xs. isAddress c a \<Longrightarrow> forEach (validateAddress c) xs w = (Inr (), w)"
  by (induction xs) (auto simp: ret_def throw_def andThen_def validateAddress_def)

lemmas io_defs = ret_def throw_def andThen_def lift_def contractWrite_def autoSwitchMainnet_def

lemma pad_follow: "pad (toHex ''follow'') = Inr (toHex ''follow'' @ replicate 26 0)"
  by (simp add: pad_def toHex_def)

lemma pad_like: "pad (toHex ''like'') = Inr (toHex ''like'' @ replicate 28 0)"
  by (simp add: pad_def toHex_def)

text \<open>
  Claim C2. Whenever the network guard passes, every address of \<open>toAddresses\<close> is
  well-formed, the link type fits 32 bytes, the chain client answers the batch call with
  a hash and that hash with a receipt whose events hold one or more \<open>LinkCharacter\<close>
  events, the batch link operation submits that one call and returns the linklist id of
  the first \<open>LinkCharacter\<close> event in the receipt's order, however many there are,
  together with the receipt's transaction hash.
\<close>

theorem linkCharactersInBatch_first_wins:
  assumes guard: "currentNetworkId c = deploymentNetworkId c
                  \<or> switchNetwork c (deploymentNetworkId c)"
    and addrs: "\<forall>a \<in> set as. isAddress c a"
    and width: "length (toHex lt) \<le> 32"
    and wr: "writeContract c
       \<lparr>contract = Periphery, functionName = ''linkCharactersInBatch'',
        callArgs = [JObj [(''fromCharacterId'', BigInt f),
                          (''toCharacterIds'', JArr (map BigInt ts)),
                          (''toAddresses'', JArr (map JStr as)),
                          (''linkType'',
                             Hex (toHex lt @ replicate (32 - length (toHex lt)) 0)),
                          (''data'', JArr (case d of
                               None \<Rightarrow> map (\<lambda>_. JStr (NIL_ADDRESS c)) ts
                             | Some ds \<Rightarrow> map JStr ds))]]\<rparr> = Inr h"
    and rc: "waitForTransactionReceipt c h = Inr rc"
    and ev: "List.find (\<lambda>e. eventName e = ''LinkCharacter'') (logs rc) = Some e"
  shows "linkCharactersInBatch c f ts as lt d w
     = (Inr \<lparr>data = arg e ''linklistId'',
              transactionHash = Some (receipt.transactionHash rc)\<rparr>,
        w\<lparr>submitted := submitted w @
          [\<lparr>contract = Periphery, functionName = ''linkCharactersInBatch'',
            callArgs = [JObj [(''fromCharacterId'', BigInt f),
                              (''toCharacterIds'', JArr (map BigInt ts)),
                              (''toAddresses'', JArr (map JStr as)),
                              (''linkType'',
                                 Hex (toHex lt @ replicate (32 - length (toHex lt)) 0)),
                              (''data'', JArr (case d of
                                   None \<Rightarrow> map (\<lambda>_. JStr (NIL_ADDRESS c)) ts
                                 | Some ds \<Rightarrow> map JStr ds))]]\<rparr>]\<rparr>)"
proof -
  have p: "pad (toHex lt) = Inr (toHex lt @ replicate (32 - length (toHex lt)) 0)"
    using width by (simp add: pad_def)
  show ?thesis
    using guard wr rc
    by (auto simp: linkCharactersInBatch_def io_defs p forEach_validate_ok [OF addrs]
        parseLog_first [OF ev])
qed

theorem linkCharactersInBatch_first_wins_witness:
  "linkCharactersInBatch
     (sampleChain [sampleEvent ''LinkCharacter'' 7, sampleEvent ''LinkCharacter'' 9])
     1 [2, 3] [] ''follow'' None emptyWorld
     = (Inr \<lparr>data = BigInt 7, transactionHash = Some ''0x01''\<rparr>,
        emptyWorld\<lparr>submitted :=
          [\<lparr>contract = Periphery, functionName = ''linkCharactersInBatch'',
            callArgs = [JObj [(''fromCharacterId'', BigInt 1),
                              (''toCharacterIds'', JArr [BigInt 2, BigInt 3]),
                              (''toAddresses'', JArr []),
                              (''linkType'', Hex (toHex ''follow'' @ replicate 26 0)),
                              (''data'',
                                 JArr [JStr ''0x0000000000000000000000000000000000000000'',
                                       JStr ''0x0000000000000000000000000000000000000000''])
                             ]]\<rparr>]\<rparr>)"
proof -
  let ?evs = "[sampleEvent ''LinkCharacter'' 7, sampleEvent ''LinkCharacter'' 9]"
  let ?c = "sampleChain ?evs"
  let ?rc = "\<lparr>receipt.transactionHash = ''0x01'', logs = ?evs\<rparr>"
  have guard: "currentNetworkId ?c = deploymentNetworkId ?c
                 \<or> switchNetwork ?c (deploymentNetworkId ?c)"
    by (simp add: sampleChain_def)
  have addrs: "\<forall>a \<in> set []. isAddress ?c a" by simp
  have width: "length (toHex ''follow'') \<le> 32" by (simp add: toHex_def)
  have len: "32 - length (toHex ''follow'') = 26" by (simp add: toHex_def)
  have wr: "writeContract ?c
       \<lparr>contract = Periphery, functionName = ''linkCharactersInBatch'',
        callArgs = [JObj [(''fromCharacterId'', BigInt 1),
                          (''toCharacterIds'', JArr (map BigInt [2, 3])),
                          (''toAddresses'', JArr (map JStr [])),
                          (''linkType'',
                             Hex (toHex ''follow''
                                  @ replicate (32 - length (toHex ''follow'')) 0)),
                          (''data'', JArr (case None of
                               None \<Rightarrow> map (\<lambda>_. JStr (NIL_ADDRESS ?c)) [2, 3]
                             | Some ds \<Rightarrow> map JStr ds))]]\<rparr> = Inr ''0x01''"
    by (simp add: sampleChain_def)
  have rc: "waitForTransactionReceipt ?c ''0x01'' = Inr ?rc" by (simp add: sampleChain_def)
  have ev: "List.find (\<lambda>e. eventName e = ''LinkCharacter'') (logs ?rc)
              = Some (sampleEvent ''LinkCharacter'' 7)"
    by (simp add: sampleEvent_def)
  from linkCharactersInBatch_first_wins [OF guard addrs width wr rc ev, of emptyWorld]
  show ?thesis by (simp add: arg_def sampleEvent_def emptyWorld_def len sampleChain_def)
qed

text \<open>
  Claim C6, as amended. The batch link operation makes no check of the length of
  \<open>data\<close>: whenever the network guard passes, every address of \<open>toAddresses\<close> is
  well-formed and the link type fits 32 bytes, the call is submitted to the chain client
  with the data list as supplied, whatever its length is (and with one \<open>NIL_ADDRESS\<close>
  for each of \<open>toCharacterIds\<close> when no data is supplied).
\<close>

theorem linkCharactersInBatch_no_length_check:
  assumes guard: "currentNetworkId c = deploymentNetworkId c
                  \<or> switchNetwork c (deploymentNetworkId c)"
    and addrs: "\<forall>a \<in> set as. isAddress c a"
    and width: "length (toHex lt) \<le> 32"
  shows "submitted (snd (linkCharactersInBatch c f ts as lt d w))
     = submitted w @
       [\<lparr>contract = Periphery, functionName = ''linkCharactersInBatch'',
          callArgs = [JObj [(''fromCharacterId'', BigInt f),
                            (''toCharacterIds'', JArr (map BigInt ts)),
                            (''toAddresses'', JArr (map JStr as)),
                            (''linkType'',
                               Hex (toHex lt @ replicate (32 - length (toHex lt)) 0)),
                            (''data'', JArr (case d of
                                 None \<Rightarrow> map (\<lambda>_. JStr (NIL_ADDRESS c)) ts
                               | Some ds \<Rightarrow> map JStr ds))]]\<rparr>]"
  using guard width forEach_validate_ok [OF addrs, of w]
  by (auto simp: linkCharactersInBatch_def io_defs pad_def
      split: if_splits prod.splits sum.splits)

theorem linkCharactersInBatch_no_length_check_witness:
  "submitted (snd (linkCharactersInBatch (sampleChain []) 1 [2, 3, 4] [] ''follow''
                    (Some [''0x01'', ''0x02'']) emptyWorld))
     = [\<lparr>contract = Periphery, functionName = ''linkCharactersInBatch'',
          callArgs = [JObj [(''fromCharacterId'', BigInt 1),
                            (''toCharacterIds'', JArr [BigInt 2, BigInt 3, BigInt 4]),
                            (''toAddresses'', JArr []),
                            (''linkType'', Hex (toHex ''follow'' @ replicate 26 0)),
                            (''data'', JArr [JStr ''0x01'', JStr ''0x02''])]]\<rparr>]"
proof -
  have guard: "currentNetworkId (sampleChain []) = deploymentNetworkId (sampleChain [])
                 \<or> switchNetwork (sampleChain []) (deploymentNetworkId (sampleChain []))"
    by (simp add: sampleChain_def)
  have addrs: "\<forall>a \<in> set []. isAddress (sampleChain []) a" by simp
  have width: "length (toHex ''follow'') \<le> 32" by (simp add: toHex_def)
  have len: "32 - length (toHex ''follow'') = 26" by (simp add: toHex_def)
  from linkCharactersInBatch_no_length_check [OF guard addrs width,
      of 1 "[2, 3, 4]" "Some [''0x01'', ''0x02'']" emptyWorld]
  show ?thesis by (simp add: emptyWorld_def len)
qed

text \<open>
  Claim C6 as stated fails on a batch of 3 targets with 2 data items: the call is
  submitted and the operation returns the linklist id, with no \<open>LengthMismatch\<close>.
\<close>

theorem linkCharactersInBatch_length_counterexample:
  "length [2, 3, 4 :: int] \<noteq> length [''0x01'', ''0x02'']
   \<and> fst (linkCharactersInBatch (sampleChain [sampleEvent ''LinkCharacter'' 7])
          1 [2, 3, 4] [] ''follow'' (Some [''0x01'', ''0x02'']) emptyWorld)
     = Inr \<lparr>data = BigInt 7, transactionHash = Some ''0x01''\<rparr>
   \<and> submitted (snd (linkCharactersInBatch (sampleChain [sampleEvent ''LinkCharacter'' 7])
          1 [2, 3, 4] [] ''follow'' (Some [''0x01'', ''0x02'']) emptyWorld))
     = [\<lparr>contract = Periphery, functionName = ''linkCharactersInBatch'',
          callArgs = [JObj [(''fromCharacterId'', BigInt 1),
                            (''toCharacterIds'', JArr [BigInt 2, BigInt 3, BigInt 4]),
                            (''toAddresses'', JArr []),
                            (''linkType'', Hex (toHex ''follow'' @ replicate 26 0)),
                            (''data'', JArr [JStr ''0x01'', JStr ''0x02''])]]\<rparr>]"
  by (simp add: linkCharactersInBatch_def io_defs sampleChain_def pad_follow parseLog_def
      matchEvents_def sampleEvent_def emptyWorld_def arg_def)

text \<open>
  Claim C10. Whenever the network guard passes, the link type fits 32 bytes and the
  chain client answers the call with a hash and that hash with a receipt, \<open>linkErc721\<close>
  submits its \<open>linkERC721\<close> call and returns what the event named \<open>LinkAnyUri\<close> gives,
  and \<open>linkLinklist\<close> submits its \<open>linkLinklist\<close> call and returns what the event named
  \<open>LinkNote\<close> gives: the linklist id of that event with the receipt's hash, and on a
  receipt with no event of that name, whatever other events it holds, the failure
  \<open>EventNotFound\<close>.
\<close>

theorem link_event_names:
  assumes guard: "currentNetworkId c = deploymentNetworkId c
                  \<or> switchNetwork c (deploymentNetworkId c)"
    and width: "length (toHex lt) \<le> 32"
  shows
  "(writeContract c
       \<lparr>contract = Entry, functionName = ''linkERC721'',
        callArgs = [JObj [(''fromCharacterId'', BigInt f),
                          (''tokenAddress'', JStr a),
                          (''tokenId'', BigInt t),
                          (''linkType'',
                             Hex (toHex lt @ replicate (32 - length (toHex lt)) 0)),
                          (''data'', orNil c d)]]\<rparr> = Inr h
      \<and> waitForTransactionReceipt c h = Inr rc
    \<longrightarrow> linkErc721 c f a t lt d w
          = ((case parseLog (logs rc) ''LinkAnyUri'' True of
                Inl e \<Rightarrow> Inl e
              | Inr p \<Rightarrow> Inr \<lparr>data = arg p ''linklistId'',
                              transactionHash = Some (receipt.transactionHash rc)\<rparr>),
             w\<lparr>submitted := submitted w @
               [\<lparr>contract = Entry, functionName = ''linkERC721'',
                 callArgs = [JObj [(''fromCharacterId'', BigInt f),
                                   (''tokenAddress'', JStr a),
                                   (''tokenId'', BigInt t),
                                   (''linkType'',
                                      Hex (toHex lt @ replicate (32 - length (toHex lt)) 0)),
                                   (''data'', orNil c d)]]\<rparr>]\<rparr>)
        \<and> ((\<forall>e \<in> set (logs rc). eventName e \<noteq> ''LinkAnyUri'')
              \<longrightarrow> fst (linkErc721 c f a t lt d w) = Inl EventNotFound))
   \<and> (writeContract c
       \<lparr>contract = Entry, functionName = ''linkLinklist'',
        callArgs = [JObj [(''fromCharacterId'', BigInt f),
                          (''toLinkListId'', BigInt l),
                          (''linkType'',
                             Hex (toHex lt @ replicate (32 - length (toHex lt)) 0)),
                          (''data'', orNil c d)]]\<rparr> = Inr h'
      \<and> waitForTransactionReceipt c h' = Inr rc'
    \<longrightarrow> linkLinklist c f l lt d w
          = ((case parseLog (logs rc') ''LinkNote'' True of
                Inl e \<Rightarrow> Inl e
              | Inr p \<Rightarrow> Inr \<lparr>data = arg p ''linklistId'',
                              transactionHash = Some (receipt.transactionHash rc')\<rparr>),
             w\<lparr>submitted := submitted w @
               [\<lparr>contract = Entry, functionName = ''linkLinklist'',
                 callArgs = [JObj [(''fromCharacterId'', BigInt f),
                                   (''toLinkListId'', BigInt l),
                                   (''linkType'',
                                      Hex (toHex lt @ replicate (32 - length (toHex lt)) 0)),
                                   (''data'', orNil c d)]]\<rparr>]\<rparr>)
        \<and> ((\<forall>e \<in> set (logs rc'). eventName e \<noteq> ''LinkNote'')
              \<longrightarrow> fst (linkLinklist c f l lt d w) = Inl EventNotFound))"
proof -
  have p: "pad (toHex lt) = Inr (toHex lt @ replicate (32 - length (toHex lt)) 0)"
    using width by (simp add: pad_def)
  show ?thesis
    using guard
    by (auto simp: linkErc721_def linkLinklist_def io_defs p parseLog_none
        split: sum.splits)
qed

theorem link_event_names_witness:
  "fst (linkErc721 (sampleChain [sampleEvent ''LinkERC721'' 5]) 1 ''0xabc'' 2 ''like'' None
          emptyWorld) = Inl EventNotFound
   \<and> fst (linkErc721
            (sampleChain [sampleEvent ''LinkERC721'' 5, sampleEvent ''LinkAnyUri'' 8])
            1 ''0xabc'' 2 ''like'' None emptyWorld)
       = Inr \<lparr>data = BigInt 8, transactionHash = Some ''0x01''\<rparr>
   \<and> fst (linkLinklist (sampleChain [sampleEvent ''LinkLinklist'' 5]) 1 2 ''like'' None
          emptyWorld) = Inl EventNotFound
   \<and> fst (linkLinklist
            (sampleChain [sampleEvent ''LinkLinklist'' 5, sampleEvent ''LinkNote'' 8])
            1 2 ''like'' None emptyWorld)
       = Inr \<lparr>data = BigInt 8, transactionHash = Some ''0x01''\<rparr>"
proof -
  have width: "length (toHex ''like'') \<le> 32" by (simp add: toHex_def)
  have guard: "currentNetworkId (sampleChain evs) = deploymentNetworkId (sampleChain evs)
                 \<or> switchNetwork (sampleChain evs) (deploymentNetworkId (sampleChain evs))"
    for evs by (simp add: sampleChain_def)
  have wr: "writeContract (sampleChain evs) cl = Inr ''0x01''" for evs cl
    by (simp add: sampleChain_def)
  have rc: "waitForTransactionReceipt (sampleChain evs) ''0x01''
              = Inr \<lparr>receipt.transactionHash = ''0x01'', logs = evs\<rparr>" for evs
    by (simp add: sampleChain_def)
  have no1: "\<forall>e \<in> set (logs \<lparr>receipt.transactionHash = ''0x01'',
                                  logs = [sampleEvent ''LinkERC721'' 5]\<rparr>).
               eventName e \<noteq> ''LinkAnyUri''"
    by (simp add: sampleEvent_def)
  have no2: "\<forall>e \<in> set (logs \<lparr>receipt.transactionHash = ''0x01'',
                                  logs = [sampleEvent ''LinkLinklist'' 5]\<rparr>).
               eventName e \<noteq> ''LinkNote''"
    by (simp add: sampleEvent_def)
  have a: "fst (linkErc721 (sampleChain [sampleEvent ''LinkERC721'' 5]) 1 ''0xabc'' 2
                  ''like'' None emptyWorld) = Inl EventNotFound"
    by (rule link_event_names [where c = "sampleChain [sampleEvent ''LinkERC721'' 5]" and lt = "''like''" and f = 1
        and a = "''0xabc''" and t = 2 and l = 2 and d = None and w = emptyWorld
        and h = "''0x01''" and h' = "''0x01''"
        and rc = "\<lparr>receipt.transactionHash = ''0x01'', logs = [sampleEvent ''LinkERC721'' 5]\<rparr>"
        and rc' = "\<lparr>receipt.transactionHash = ''0x01'', logs = [sampleEvent ''LinkERC721'' 5]\<rparr>",
        OF guard width, THEN conjunct1, THEN mp, OF conjI [OF wr rc], THEN conjunct2, THEN mp, OF no1])
  have b: "fst (linkErc721
            (sampleChain [sampleEvent ''LinkERC721'' 5, sampleEvent ''LinkAnyUri'' 8])
            1 ''0xabc'' 2 ''like'' None emptyWorld)
       = Inr \<lparr>data = BigInt 8, transactionHash = Some ''0x01''\<rparr>"
    using link_event_names [where c = "sampleChain [sampleEvent ''LinkERC721'' 5, sampleEvent ''LinkAnyUri'' 8]" and lt = "''like''" and f = 1
        and a = "''0xabc''" and t = 2 and l = 2 and d = None and w = emptyWorld
        and h = "''0x01''" and h' = "''0x01''"
        and rc = "\<lparr>receipt.transactionHash = ''0x01'', logs = [sampleEvent ''LinkERC721'' 5, sampleEvent ''LinkAnyUri'' 8]\<rparr>"
        and rc' = "\<lparr>receipt.transactionHash = ''0x01'', logs = [sampleEvent ''LinkERC721'' 5, sampleEvent ''LinkAnyUri'' 8]\<rparr>",
        OF guard width, THEN conjunct1, THEN mp, OF conjI [OF wr rc], THEN conjunct1]
    by (simp add: sampleEvent_def parseLog_def matchEvents_def arg_def)
  have c: "fst (linkLinklist (sampleChain [sampleEvent ''LinkLinklist'' 5]) 1 2 ''like''
                  None emptyWorld) = Inl EventNotFound"
    by (rule link_event_names [where c = "sampleChain [sampleEvent ''LinkLinklist'' 5]" and lt = "''like''" and f = 1
        and a = "''0xabc''" and t = 2 and l = 2 and d = None and w = emptyWorld
        and h = "''0x01''" and h' = "''0x01''"
        and rc = "\<lparr>receipt.transactionHash = ''0x01'', logs = [sampleEvent ''LinkLinklist'' 5]\<rparr>"
        and rc' = "\<lparr>receipt.transactionHash = ''0x01'', logs = [sampleEvent ''LinkLinklist'' 5]\<rparr>",
        OF guard width, THEN conjunct2, THEN mp, OF conjI [OF wr rc], THEN conjunct2, THEN mp, OF no2])
  have d: "fst (linkLinklist
            (sampleChain [sampleEvent ''LinkLinklist'' 5, sampleEvent ''LinkNote'' 8])
            1 2 ''like'' None emptyWorld)
       = Inr \<lparr>data = BigInt 8, transactionHash = Some ''0x01''\<rparr>"
    using link_event_names [where c = "sampleChain [sampleEvent ''LinkLinklist'' 5, sampleEvent ''LinkNote'' 8]" and lt = "''like''" and f = 1
        and a = "''0xabc''" and t = 2 and l = 2 and d = None and w = emptyWorld
        and h = "''0x01''" and h' = "''0x01''"
        and rc = "\<lparr>receipt.transactionHash = ''0x01'', logs = [sampleEvent ''LinkLinklist'' 5, sampleEvent ''LinkNote'' 8]\<rparr>"
        and rc' = "\<lparr>receipt.transactionHash = ''0x01'', logs = [sampleEvent ''LinkLinklist'' 5, sampleEvent ''LinkNote'' 8]\<rparr>",
        OF guard width, THEN conjunct2, THEN mp, OF conjI [OF wr rc], THEN conjunct1]
    by (simp add: sampleEvent_def parseLog_def matchEvents_def arg_def)
  from a b c d show ?thesis by simp
qed

section \<open>The result envelope\<close>

lemma andThen_InrE:
  assumes "andThen m f w = (Inr r, w')"
  obtains x w1 where "m w = (Inr x, w1)" and "f x w1 = (Inr r, w')"
  using assms by (auto simp: andThen_def split: prod.splits sum.splits)

lemma ret_Inr: "ret x w = (Inr r, w') \<longleftrightarrow> r = x \<and> w' = w"
  by (auto simp: ret_def)

lemma throw_Inr: "throw e w = (Inr r, w') \<longleftrightarrow> False"
  by (simp add: throw_def)

lemma lift_Inr: "lift x w = (Inr r, w') \<longleftrightarrow> x = Inr r \<and> w' = w"
  by (auto simp: lift_def ret_def throw_def split: sum.splits)

lemma contractWrite_Inr:
  "contractWrite c cl w = (Inr h, w') \<longleftrightarrow>
     writeContract c cl = Inr h \<and> w' = w\<lparr>submitted := submitted w @ [cl]\<rparr>"
  by (auto simp: contractWrite_def)

lemma autoSwitchMainnet_Inr:
  "autoSwitchMainnet c body w = (Inr r, w') \<Longrightarrow> body w = (Inr r, w')"
  by (auto simp: autoSwitchMainnet_def throw_def split: if_splits)

lemma validateAddress_Inr:
  "validateAddress c a w = (Inr u, w') \<Longrightarrow> w' = w"
  by (auto simp: validateAddress_def ret_def throw_def split: if_splits)

lemmas io_Inr = ret_Inr throw_Inr lift_Inr contractWrite_Inr

lemma retry_submitted:
  assumes "\<And>w r w'. f w = (r, w') \<Longrightarrow> submitted w' = submitted w"
  shows "retry f n w = (r, w') \<Longrightarrow> submitted w' = submitted w"
proof (induction n arbitrary: w)
  case 0
  then show ?case using assms by simp
next
  case (Suc n)
  then show ?case using assms
    by (auto split: prod.splits sum.splits)
qed

lemma uploadJson_submitted:
  "uploadJson st j w = (r, w') \<Longrightarrow> submitted w' = submitted w"
  unfolding uploadJson_def
  by (erule retry_submitted [rotated]) (auto simp: httpPost_def)

lemma metadataToUri_submitted:
  "metadataToUri st m w = (r, w') \<Longrightarrow> submitted w' = submitted w"
  by (auto simp: metadataToUri_def andThen_def ret_def throw_def
      split: prod.splits sum.splits jsval.splits if_splits dest: uploadJson_submitted)

lemma uriToMetadata_submitted:
  "uriToMetadata st u w = (r, w') \<Longrightarrow> submitted w' = submitted w"
  by (auto simp: uriToMetadata_def andThen_def ret_def throw_def catchAll_def logError_def
      ipfsFetch_def httpGet_def
      split: prod.splits sum.splits option.splits if_splits)

lemma parseMetadataOrUri_submitted:
  "parseMetadataOrUri st ty m b w = (r, w') \<Longrightarrow> submitted w' = submitted w"
  by (auto simp: parseMetadataOrUri_def andThen_def ret_def throw_def Let_def
      split: prod.splits sum.splits metadataOrUri.splits if_splits
      dest: uriToMetadata_submitted metadataToUri_submitted)

lemma mapIO_lift:
  "mapIO (\<lambda>i. lift (g i)) xs w = (r, w') \<Longrightarrow> w' = w"
  by (induction xs arbitrary: r)
     (auto simp: ret_def throw_def andThen_def lift_def split: prod.splits sum.splits)

lemmas link_defs = linkCharacter_def linkCharactersInBatch_def createThenLinkCharacter_def
  unlinkCharacter_def linkAddress_def unlinkAddress_def linkAnyUri_def unlinkAnyUri_def
  linkErc721_def unlinkErc721_def linkNote_def unlinkNote_def linkLinklist_def
  unlinkLinklist_def setLinklistUri_def mintNote_def

lemma read_ops:
  "getLinklistIdByTransaction c h w = (Inr r, w') \<Longrightarrow> transactionHash r = None \<and> w' = w"
  "getLinkingCharacterIds c f lt w = (Inr r, w') \<Longrightarrow> transactionHash r = None \<and> w' = w"
  "getLinklistUri c f w = (Inr r, w') \<Longrightarrow> transactionHash r = None \<and> w' = w"
  by (auto simp: getLinklistIdByTransaction_def getLinkingCharacterIds_def getLinklistUri_def
      io_Inr elim!: andThen_InrE split: jsval.splits)

lemma getLinkingCharacters_read:
  "getLinkingCharacters c f lt w = (Inr r, w') \<Longrightarrow> transactionHash r = None \<and> w' = w"
  by (auto simp: getLinkingCharacters_def io_Inr elim!: andThen_InrE
      split: jsval.splits dest!: mapIO_lift)

lemma getNote_read:
  "getNote c st p n w = (Inr r, w')
     \<Longrightarrow> transactionHash r = None \<and> submitted w' = submitted w"
  by (auto simp: getNote_def io_Inr elim!: andThen_InrE
      split: jsval.splits if_splits dest: uriToMetadata_submitted)

lemma write_ops:
  assumes "perform c st op w = (Inr r, w')" and "hasTxHash op"
    and "\<forall>p m. op \<noteq> PostNote p m"
  shows "\<exists>cl h rc. submitted w' = submitted w @ [cl] \<and> writeContract c cl = Inr h
           \<and> waitForTransactionReceipt c h = Inr rc
           \<and> transactionHash r = Some (receipt.transactionHash rc)"
  using assms
  by (cases op)
     (auto simp: link_defs io_Inr elim!: andThen_InrE
        dest!: autoSwitchMainnet_Inr forEach_validate validateAddress_Inr)

lemma postNote_write:
  assumes "postNote c st p m w = (Inr r, w')"
  shows "\<exists>cl h rc. submitted w' = submitted w @ [cl] \<and> writeContract c cl = Inr h
           \<and> waitForTransactionReceipt c h = Inr rc
           \<and> transactionHash r = Some (receipt.transactionHash rc)"
  using assms
  by (auto simp: postNote_def io_Inr elim!: andThen_InrE
        dest!: parseMetadataOrUri_submitted)

lemma unlink_data:
  assumes "perform c st op w = (Inr r, w')" and "isUnlink op"
  shows "data r = Undefined"
  using assms
  by (cases op)
     (auto simp: link_defs io_Inr elim!: andThen_InrE dest!: autoSwitchMainnet_Inr)

text \<open>
  Claim C9. Whenever an operation returns a result: an operation declared with a
  transaction hash has submitted exactly one call, and its result carries the
  transaction hash of the receipt the client gave for that call; an operation declared
  without one has submitted nothing and its result has no \<open>transactionHash\<close> field; and
  the result of every unlink variant has \<open>data\<close> undefined.
\<close>

theorem result_envelope:
  assumes run: "perform c st op w = (Inr r, w')"
  shows "(hasTxHash op \<longrightarrow>
            (\<exists>cl h rc. submitted w' = submitted w @ [cl] \<and> writeContract c cl = Inr h
               \<and> waitForTransactionReceipt c h = Inr rc
               \<and> transactionHash r = Some (receipt.transactionHash rc)))
       \<and> (\<not> hasTxHash op \<longrightarrow> transactionHash r = None \<and> submitted w' = submitted w)
       \<and> (isUnlink op \<longrightarrow> data r = Undefined)"
proof (intro conjI impI)
  assume h: "hasTxHash op"
  show "\<exists>cl h rc. submitted w' = submitted w @ [cl] \<and> writeContract c cl = Inr h
               \<and> waitForTransactionReceipt c h = Inr rc
               \<and> transactionHash r = Some (receipt.transactionHash rc)"
  proof (cases "\<exists>p m. op = PostNote p m")
    case True
    with run postNote_write show ?thesis by fastforce
  next
    case False
    with write_ops [OF run h] show ?thesis by blast
  qed
next
  assume "\<not> hasTxHash op"
  with run show "transactionHash r = None"
    by (cases op) (auto dest: read_ops getLinkingCharacters_read getNote_read)
next
  assume "\<not> hasTxHash op"
  with run show "submitted w' = submitted w"
    by (cases op) (auto dest: read_ops getLinkingCharacters_read getNote_read)
next
  assume "isUnlink op"
  with run show "data r = Undefined" by (rule unlink_data)
qed

theorem result_envelope_witness:
  "result.transactionHash \<lparr>data = Undefined, transactionHash = Some ''0x01''\<rparr> \<noteq> None
   \<and> perform (sampleChain []) (flakyStore 0) (UnlinkCharacter 1 2 ''follow'') emptyWorld
       = (Inr \<lparr>data = Undefined, transactionHash = Some ''0x01''\<rparr>,
          emptyWorld\<lparr>submitted :=
            [\<lparr>contract = Entry, functionName = ''unlinkCharacter'',
              callArgs = [JObj [(''fromCharacterId'', BigInt 1),
                                (''toCharacterId'', BigInt 2),
                                (''linkType'', Hex (toHex ''follow'' @ replicate 26 0))]]\<rparr>]\<rparr>)
   \<and> perform (sampleChain [sampleEvent ''LinkCharacter'' 5]) (flakyStore 0)
        (GetLinklistIdByTransaction ''0x01'') emptyWorld
       = (Inr \<lparr>data = BigInt 5, transactionHash = None\<rparr>, emptyWorld)"
proof -
  let ?r = "\<lparr>data = Undefined, transactionHash = Some ''0x01''\<rparr>"
  let ?w = "emptyWorld\<lparr>submitted :=
            [\<lparr>contract = Entry, functionName = ''unlinkCharacter'',
              callArgs = [JObj [(''fromCharacterId'', BigInt 1),
                                (''toCharacterId'', BigInt 2),
                                (''linkType'', Hex (toHex ''follow'' @ replicate 26 0))]]\<rparr>]\<rparr>"
  let ?r' = "\<lparr>data = BigInt 5, transactionHash = None\<rparr>"
  have run: "perform (sampleChain []) (flakyStore 0) (UnlinkCharacter 1 2 ''follow'') emptyWorld
               = (Inr ?r, ?w)"
    by (simp add: unlinkCharacter_def io_defs sampleChain_def pad_follow emptyWorld_def)
  have run': "perform (sampleChain [sampleEvent ''LinkCharacter'' 5]) (flakyStore 0)
                (GetLinklistIdByTransaction ''0x01'') emptyWorld = (Inr ?r', emptyWorld)"
    by (simp add: getLinklistIdByTransaction_def io_defs sampleChain_def parseLog_def
        matchEvents_def sampleEvent_def arg_def)
  from result_envelope [OF run] have "result.transactionHash ?r \<noteq> None" by auto
  moreover from result_envelope [OF run'] have "result.transactionHash ?r' = None" by simp
  ultimately show ?thesis using run run' by simp
qed

end
